theory Spec2Isabelle
  imports Complex_Main "HOL-Library.Char_ord" "HOL-Library.List_Lexorder"
begin

section \<open>Data model (monitoring/models.py)\<close>

text \<open>
  Timestamps are aware datetimes, read as microseconds since the epoch (the resolution
  of Python's datetime).
  Nullable columns are options.  Django's IntegerField is a signed integer, so the
  counters are \<open>int\<close>.  A foreign key holds the primary key of the row it
  points to.  Two models may not share a field name in one theory, so the fields
  \<open>server\<close>, \<open>status\<close>, \<open>updated_at\<close>, \<open>user\<close> and
  \<open>organization\<close> carry the model as a prefix where they would clash.
\<close>

type_synonym timestamp = int

text \<open>An exception that the code around it does not catch: a Python or Django exception
  by the name of its class, or the exception of the database driver for a value the
  backend does not take (its class differs by backend).\<close>

datatype exn = Uncaught string | BackendRefused

text \<open>\<open>timedelta(seconds=n)\<close>, in microseconds.  Python refuses a duration of more
  than 999999999 days in either direction with OverflowError.\<close>

definition timedelta_seconds :: "int \<Rightarrow> exn + int" where
  "timedelta_seconds n =
     (if - 86399999913600 \<le> n \<and> n \<le> 86399999999999 then Inr (n * 1000000)
      else Inl (Uncaught ''OverflowError''))"

record Server =
  server_id :: nat
  owner :: "nat option"
  organization :: "nat option"
  name :: string
  protocol :: string
  host :: string
  port :: int
  path :: string
  timeout :: int
  server_status :: string

record PingResult =
  ping_server :: nat
  ping_status :: string
  response_time :: "real option"
  status_code :: "int option"
  error_message :: "string option"
  check_timestamp :: timestamp

record ServerStatus =
  status_server :: nat
  status :: string
  uptime_percentage :: real
  last_check :: "timestamp option"
  last_up :: "timestamp option"
  last_down :: "timestamp option"
  consecutive_failures :: int
  failure_threshold :: int
  message :: "string option"
  status_updated_at :: "timestamp option"

text \<open>The row that \<open>ServerStatus.objects.get_or_create(server=server)\<close> inserts
  when the server has none: every column at its declared default.\<close>

definition default_status :: "nat \<Rightarrow> ServerStatus" where
  "default_status sid =
     \<lparr> status_server = sid, status = ''unknown'', uptime_percentage = 100,
       last_check = None, last_up = None, last_down = None,
       consecutive_failures = 0, failure_threshold = 3, message = None,
       status_updated_at = None \<rparr>"

record NotificationConfig =
  config_id :: nat
  config_server :: nat
  notification_type :: string
  recipient :: string
  enabled :: bool
  notify_on_failure :: bool
  notify_on_recovery :: bool
  min_notification_interval :: int
  updated_at :: "timestamp option"

record UserAccount =
  account_id :: nat
  account_user :: "nat option"
  account_organization :: "nat option"
  sms_credits :: int
  email_credits :: int

text \<open>\<open>updated_at = DateTimeField(auto_now=True)\<close> of \<open>TimeStampedModel\<close>:
  every \<open>save()\<close>, the first one included, stamps the row with the clock.\<close>

definition save_config :: "timestamp \<Rightarrow> NotificationConfig \<Rightarrow> NotificationConfig" where
  "save_config clock c = c\<lparr>updated_at := Some clock\<rparr>"

text \<open>What the channel adapters hand to the outside, and what the real-time layer is
  asked to broadcast.  The rendered subject and body are left out of a delivery; the
  flag says whether the text announces a recovery or an alert.\<close>

datatype delivery = Email string bool | Sms string bool | Webhook string bool

text \<open>A call the probe executor makes on the network: \<open>requests.get(url, timeout)\<close>
  or \<open>socket.create_connection((host, port), timeout)\<close>.\<close>

datatype net_call = HttpGet string int | TcpConnect string int int

text \<open>The tables, and the logs of the effects on the outside world.  The
  notification configs are held in the order their queryset iterates
  (\<open>Meta.ordering\<close>).\<close>

record world =
  servers :: "Server list"
  ping_results :: "PingResult list"
  server_statuses :: "ServerStatus list"
  notification_configs :: "NotificationConfig list"
  user_accounts :: "UserAccount list"
  network_calls :: "net_call list"
  outbox :: "delivery list"
  broadcasts :: "(string \<times> PingResult \<times> ServerStatus) list"

text \<open>
  The database backend is a matter of the settings (SQLite in development, PostgreSQL in
  staging and production), and the backends differ in what they take: the range of an
  integer column, the length of a character column, the integers a query may carry.
  The model asks the backend: whether it takes a ping row to insert and a status row to
  save, and whether it takes a value that a query carries: an integer of an
  \<open>id__in\<close> lookup, an integer as the \<open>LIMIT\<close>, a text to compare a character
  column with, a datetime to compare a datetime column with.  Where it does not, the
  database call raises.  Losing the connection to the database or to the channel layer
  is outside the model.
\<close>

record backend =
  accepts_ping :: "PingResult \<Rightarrow> bool"
  accepts_status :: "ServerStatus \<Rightarrow> bool"
  accepts_id :: "int \<Rightarrow> bool"
  accepts_limit :: "int \<Rightarrow> bool"
  accepts_text :: "string \<Rightarrow> bool"
  accepts_datetime :: "timestamp \<Rightarrow> bool"

section \<open>Probe executor (monitoring/services/check_service.py)\<close>

text \<open>
  The dictionary \<open>run_check\<close> returns.  The elapsed time is a float measured on the
  monotonic clock and rounded to two places; the environment supplies the rounded
  value.
\<close>

record check_data =
  data_status :: string
  data_status_code :: "int option"
  data_response_time :: "real option"
  data_error_message :: "string option"

text \<open>What the two transports can do: \<open>requests.get\<close> returns a response, raises
  \<open>requests.Timeout\<close>, or raises another exception whose \<open>str\<close> is given;
  \<open>socket.create_connection\<close> connects, raises \<open>socket.timeout\<close>, raises another
  \<open>OSError\<close>, or raises an exception that is no \<open>OSError\<close> (not caught by
  \<open>_check_tcp\<close>).\<close>

datatype http_result = HttpResponse int real | HttpTimeout | HttpException string

datatype tcp_result = TcpConnected real | TcpTimeout | TcpOSError string | TcpOtherException string

record network =
  requests_get :: "string \<Rightarrow> int \<Rightarrow> http_result"
  create_connection :: "string \<Rightarrow> int \<Rightarrow> int \<Rightarrow> tcp_result"

text \<open>\<open>str(n)\<close> for an integer, as the f-string of \<open>full_url\<close> renders the port.\<close>

function str_nat :: "nat \<Rightarrow> string" where
  "str_nat n = (if n < 10 then [char_of (48 + n)]
                else str_nat (n div 10) @ [char_of (48 + n mod 10)])"
  by pat_completeness auto
termination
  by (relation "measure id") auto

declare str_nat.simps [simp del]

definition str_int :: "int \<Rightarrow> string" where
  "str_int i = (if i < 0 then CHR ''-'' # str_nat (nat (- i)) else str_nat (nat i))"

definition full_url :: "Server \<Rightarrow> string" where
  "full_url s = protocol s @ ''://'' @ host s @ '':'' @ str_int (port s) @ path s"

text \<open>\<open>server.timeout or self.default_timeout\<close>: zero is falsy.\<close>

definition effective_timeout :: "int \<Rightarrow> Server \<Rightarrow> int" where
  "effective_timeout default_timeout s = (if timeout s \<noteq> 0 then timeout s else default_timeout)"

text \<open>Each check returns the network calls it made and its result.\<close>

definition check_http :: "network \<Rightarrow> int \<Rightarrow> Server \<Rightarrow> net_call list \<times> (exn + check_data)" where
  "check_http net default_timeout s =
     (let url = full_url s; t = effective_timeout default_timeout s in
      ([HttpGet url t],
       (case requests_get net url t of
          HttpResponse code elapsed \<Rightarrow>
            Inr \<lparr> data_status = (if code < 500 then ''success'' else ''failure''),
                  data_status_code = Some code,
                  data_response_time = Some elapsed,
                  data_error_message = Some [] \<rparr>
        | HttpTimeout \<Rightarrow>
            Inr \<lparr> data_status = ''timeout'', data_status_code = None,
                  data_response_time = None, data_error_message = Some ''timeout'' \<rparr>
        | HttpException text \<Rightarrow>
            Inr \<lparr> data_status = ''error'', data_status_code = None,
                  data_response_time = None, data_error_message = Some text \<rparr>)))"

definition check_tcp :: "network \<Rightarrow> int \<Rightarrow> Server \<Rightarrow> net_call list \<times> (exn + check_data)" where
  "check_tcp net default_timeout s =
     (let t = effective_timeout default_timeout s in
      ([TcpConnect (host s) (port s) t],
       (case create_connection net (host s) (port s) t of
          TcpConnected elapsed \<Rightarrow>
            Inr \<lparr> data_status = ''success'', data_status_code = None,
                  data_response_time = Some elapsed, data_error_message = Some [] \<rparr>
        | TcpTimeout \<Rightarrow>
            Inr \<lparr> data_status = ''timeout'', data_status_code = None,
                  data_response_time = None, data_error_message = Some ''timeout'' \<rparr>
        | TcpOSError text \<Rightarrow>
            Inr \<lparr> data_status = ''failure'', data_status_code = None,
                  data_response_time = None, data_error_message = Some text \<rparr>
        | TcpOtherException text \<Rightarrow> Inl (Uncaught text))))"

definition run_check :: "network \<Rightarrow> int \<Rightarrow> Server \<Rightarrow> net_call list \<times> (exn + check_data)" where
  "run_check net default_timeout s =
     (if protocol s = ''http'' \<or> protocol s = ''https'' then check_http net default_timeout s
      else if protocol s = ''tcp'' then check_tcp net default_timeout s
      else if protocol s = ''icmp'' then check_tcp net default_timeout s
      else ([], Inr \<lparr> data_status = ''error'', data_status_code = None,
                       data_response_time = None,
                       data_error_message = Some (''unsupported protocol: '' @ protocol s) \<rparr>))"

section \<open>Status aggregation (monitoring/tasks/check_runner.py, lines 43 to 58)\<close>

text \<open>\<open>data.get("error_message") or data["status"]\<close>: \<open>None\<close> and the empty
  string are falsy.\<close>

definition message_of :: "check_data \<Rightarrow> string" where
  "message_of d =
     (case data_error_message d of
        None \<Rightarrow> data_status d
      | Some m \<Rightarrow> if m = [] then data_status d else m)"

text \<open>The update \<open>run_all_checks\<close> makes to the status object between loading and
  saving it.\<close>

definition status_reduction :: "check_data \<Rightarrow> timestamp \<Rightarrow> ServerStatus \<Rightarrow> ServerStatus" where
  "status_reduction d now s0 =
     (let s1 = s0\<lparr>last_check := Some now\<rparr> in
      if data_status d = ''success'' then
        s1\<lparr>consecutive_failures := 0, status := ''up'', last_up := Some now,
           message := Some ''OK''\<rparr>
      else
        (let s2 = s1\<lparr>consecutive_failures := consecutive_failures s1 + 1,
                      last_down := Some now, message := Some (message_of d)\<rparr> in
         if consecutive_failures s2 \<ge> failure_threshold s2
         then s2\<lparr>status := ''down''\<rparr>
         else s2\<lparr>status := ''degraded''\<rparr>))"

text \<open>Successive cycles apply the update to the row the previous cycle saved.\<close>

fun reduce_all :: "(check_data \<times> timestamp) list \<Rightarrow> ServerStatus \<Rightarrow> ServerStatus" where
  "reduce_all [] s = s"
| "reduce_all ((d, now) # rest) s = reduce_all rest (status_reduction d now s)"

section \<open>Notification dispatch (monitoring/services/notification_service.py)\<close>

text \<open>
  The settings the service reads, and the outside transports: \<open>send_mail\<close>,
  Twilio's \<open>client.messages.create\<close> and \<open>requests.post\<close> followed by
  \<open>raise_for_status\<close>.  A transport answers \<open>True\<close> when it returns and
  \<open>False\<close> when it raises (the adapters catch every exception).
  \<open>twilio_credentials\<close> is \<open>all([account_sid, auth_token, from_number])\<close>.
\<close>

record settings =
  EMAIL_NOTIFICATIONS_ENABLED :: bool
  SMS_NOTIFICATIONS_ENABLED :: bool
  twilio_credentials :: bool

record channels =
  send_mail :: "string \<Rightarrow> bool"
  twilio_installed :: bool
  messages_create :: "string \<Rightarrow> bool"
  requests_post :: "string \<Rightarrow> bool"

text \<open>\<open>_can_send_notification\<close>; \<open>clock\<close> is the reading of
  \<open>timezone.now()\<close>.  The \<open>timedelta\<close> is built only when \<open>updated_at\<close> is
  set, and its OverflowError is not caught.\<close>

definition can_send_notification :: "timestamp \<Rightarrow> NotificationConfig \<Rightarrow> exn + bool" where
  "can_send_notification clock c =
     (case updated_at c of
        None \<Rightarrow> Inr True
      | Some t \<Rightarrow>
          (case timedelta_seconds (min_notification_interval c) of
             Inl e \<Rightarrow> Inl e
           | Inr min_interval \<Rightarrow>
               (let time_since_last = clock - t
                in Inr (time_since_last \<ge> min_interval))))"

text \<open>\<open>_get_account\<close>: \<open>server.organization.billing_account\<close> is the account row
  whose one-to-one \<open>organization\<close> is the server's, \<open>server.owner.billing_account\<close>
  the one whose \<open>user\<close> is the owner; a missing row is \<open>DoesNotExist\<close>.\<close>

definition owner_account :: "world \<Rightarrow> Server \<Rightarrow> UserAccount option" where
  "owner_account w s =
     (case owner s of
        None \<Rightarrow> None
      | Some uid \<Rightarrow> find (\<lambda>a. account_user a = Some uid) (user_accounts w))"

definition get_account :: "world \<Rightarrow> Server \<Rightarrow> UserAccount option" where
  "get_account w s =
     (case organization s of
        Some oid \<Rightarrow>
          (case find (\<lambda>a. account_organization a = Some oid) (user_accounts w) of
             Some a \<Rightarrow> Some a
           | None \<Rightarrow> owner_account w s)
      | None \<Rightarrow> owner_account w s)"

text \<open>\<open>UserAccount.consume_email\<close> and \<open>consume_sms\<close>: the decrement, then
  \<open>save(update_fields=[...])\<close> writes the counter of that row.\<close>

definition consume_email :: "UserAccount \<Rightarrow> world \<Rightarrow> bool \<times> world" where
  "consume_email a w =
     (if email_credits a \<le> 0 then (False, w)
      else (True, w\<lparr>user_accounts :=
              map (\<lambda>r. if account_id r = account_id a
                        then r\<lparr>email_credits := email_credits a - 1\<rparr> else r)
                  (user_accounts w)\<rparr>))"

definition consume_sms :: "UserAccount \<Rightarrow> world \<Rightarrow> bool \<times> world" where
  "consume_sms a w =
     (if sms_credits a \<le> 0 then (False, w)
      else (True, w\<lparr>user_accounts :=
              map (\<lambda>r. if account_id r = account_id a
                        then r\<lparr>sms_credits := sms_credits a - 1\<rparr> else r)
                  (user_accounts w)\<rparr>))"

text \<open>\<open>config.updated_at = timezone.now(); config.save(update_fields=["updated_at"])\<close>.\<close>

definition stamp_config :: "timestamp \<Rightarrow> NotificationConfig \<Rightarrow> world \<Rightarrow> world" where
  "stamp_config clock c w =
     w\<lparr>notification_configs :=
         map (\<lambda>r. if config_id r = config_id c then save_config clock r else r)
             (notification_configs w)\<rparr>"

definition send_email ::
  "settings \<Rightarrow> channels \<Rightarrow> timestamp \<Rightarrow> Server \<Rightarrow> ServerStatus \<Rightarrow> NotificationConfig \<Rightarrow> bool
     \<Rightarrow> world \<Rightarrow> world" where
  "send_email cfg ch clock server st c is_recovery w =
     (if \<not> EMAIL_NOTIFICATIONS_ENABLED cfg then w
      else
        (let account = get_account w server in
         if (case account of Some a \<Rightarrow> email_credits a \<le> 0 | None \<Rightarrow> False) then w
         else
           (let w1 = w\<lparr>outbox := outbox w @ [Email (recipient c) is_recovery]\<rparr> in
            if send_mail ch (recipient c) then
              (let w2 = (case account of Some a \<Rightarrow> snd (consume_email a w1) | None \<Rightarrow> w1)
               in stamp_config clock c w2)
            else w1)))"

definition send_sms ::
  "settings \<Rightarrow> channels \<Rightarrow> timestamp \<Rightarrow> Server \<Rightarrow> ServerStatus \<Rightarrow> NotificationConfig \<Rightarrow> bool
     \<Rightarrow> world \<Rightarrow> world" where
  "send_sms cfg ch clock server st c is_recovery w =
     (if \<not> SMS_NOTIFICATIONS_ENABLED cfg then w
      else
        (let account = get_account w server in
         if (case account of Some a \<Rightarrow> sms_credits a \<le> 0 | None \<Rightarrow> False) then w
         else if \<not> twilio_installed ch then w
         else if \<not> twilio_credentials cfg then w
         else
           (let w1 = w\<lparr>outbox := outbox w @ [Sms (recipient c) is_recovery]\<rparr> in
            if messages_create ch (recipient c) then
              (let w2 = (case account of Some a \<Rightarrow> snd (consume_sms a w1) | None \<Rightarrow> w1)
               in stamp_config clock c w2)
            else w1)))"

definition send_webhook ::
  "channels \<Rightarrow> timestamp \<Rightarrow> Server \<Rightarrow> ServerStatus \<Rightarrow> NotificationConfig \<Rightarrow> bool
     \<Rightarrow> string option \<Rightarrow> world \<Rightarrow> world" where
  "send_webhook ch clock server st c is_recovery previous_status w =
     (let w1 = w\<lparr>outbox := outbox w @ [Webhook (recipient c) is_recovery]\<rparr> in
      if requests_post ch (recipient c) then stamp_config clock c w1 else w1)"

text \<open>The loop of \<open>notify_status_change\<close> over the selected configs: the world it
  leaves and, when the rate-limit check raised, the exception, which ends the loop with
  the configs after it not looked at.\<close>

fun notify_configs ::
  "settings \<Rightarrow> channels \<Rightarrow> timestamp \<Rightarrow> Server \<Rightarrow> ServerStatus \<Rightarrow> bool \<Rightarrow> string option
     \<Rightarrow> NotificationConfig list \<Rightarrow> world \<Rightarrow> world \<times> exn option" where
  "notify_configs cfg ch clock server st is_recovery previous_status [] w = (w, None)"
| "notify_configs cfg ch clock server st is_recovery previous_status (c # cs) w =
     (case can_send_notification clock c of
        Inl e \<Rightarrow> (w, Some e)
      | Inr allowed \<Rightarrow>
          notify_configs cfg ch clock server st is_recovery previous_status cs
            (if \<not> allowed then w
             else if notification_type c = ''email'' then
               send_email cfg ch clock server st c is_recovery w
             else if notification_type c = ''sms'' then
               send_sms cfg ch clock server st c is_recovery w
             else if notification_type c = ''webhook'' then
               send_webhook ch clock server st c is_recovery previous_status w
             else w))"

definition is_failure_status :: "ServerStatus \<Rightarrow> bool" where
  "is_failure_status st = (status st = ''down'' \<or> status st = ''degraded'')"

definition is_recovery_change :: "string option \<Rightarrow> ServerStatus \<Rightarrow> bool" where
  "is_recovery_change previous_status st =
     ((previous_status = Some ''down'' \<or> previous_status = Some ''degraded'')
      \<and> status st = ''up'')"

definition selected_configs :: "Server \<Rightarrow> bool \<Rightarrow> bool \<Rightarrow> world \<Rightarrow> NotificationConfig list" where
  "selected_configs server is_failure is_recovery w =
     (let configs = filter (\<lambda>c. config_server c = server_id server \<and> enabled c)
                      (notification_configs w)
      in if is_failure then filter notify_on_failure configs
         else if is_recovery then filter notify_on_recovery configs
         else configs)"

definition notify_status_change ::
  "settings \<Rightarrow> channels \<Rightarrow> timestamp \<Rightarrow> Server \<Rightarrow> ServerStatus \<Rightarrow> string option
     \<Rightarrow> world \<Rightarrow> world \<times> exn option" where
  "notify_status_change cfg ch clock server st previous_status w =
     (if (case previous_status of None \<Rightarrow> False | Some p \<Rightarrow> p \<noteq> [] \<and> p = status st)
      then (w, None)
      else
        (let is_failure = is_failure_status st;
             is_recovery = is_recovery_change previous_status st
         in if \<not> is_failure \<and> \<not> is_recovery then (w, None)
            else notify_configs cfg ch clock server st is_recovery previous_status
                   (selected_configs server is_failure is_recovery w) w))"

section \<open>Check orchestration (monitoring/tasks/check_runner.py)\<close>

text \<open>\<open>ServerStatus.objects.get_or_create(server=server)\<close>; the one-to-one key is
  the server.  A created row is saved, so it carries the clock's stamp.\<close>

definition get_or_create_status :: "timestamp \<Rightarrow> Server \<Rightarrow> world \<Rightarrow> ServerStatus \<times> world" where
  "get_or_create_status clock server w =
     (case find (\<lambda>r. status_server r = server_id server) (server_statuses w) of
        Some r \<Rightarrow> (r, w)
      | None \<Rightarrow>
          (let r = (default_status (server_id server))\<lparr>status_updated_at := Some clock\<rparr>
           in (r, w\<lparr>server_statuses := server_statuses w @ [r]\<rparr>)))"

text \<open>\<open>PingResult.objects.create(...)\<close>: the row is appended, unless the backend
  refuses it.\<close>

definition create_ping :: "backend \<Rightarrow> PingResult \<Rightarrow> world \<Rightarrow> exn + world" where
  "create_ping be ping w =
     (if accepts_ping be ping then Inr (w\<lparr>ping_results := ping_results w @ [ping]\<rparr>)
      else Inl BackendRefused)"

text \<open>\<open>status_obj.save()\<close>: the row of that server is overwritten, unless the backend
  refuses the new values (a counter beyond the range of the column, for one).\<close>

definition save_status :: "backend \<Rightarrow> ServerStatus \<Rightarrow> world \<Rightarrow> exn + world" where
  "save_status be st w =
     (if accepts_status be st then
        Inr (w\<lparr>server_statuses :=
               map (\<lambda>r. if status_server r = status_server st then st else r)
                   (server_statuses w)\<rparr>)
      else Inl BackendRefused)"

text \<open>\<open>StatusConsumer._group_name\<close>.\<close>

definition group_name :: "nat \<Rightarrow> string" where
  "group_name sid = ''server_'' @ str_nat sid"

text \<open>The body of the loop of \<open>run_all_checks\<close> for one server.  \<open>service\<close> is
  the \<open>run_check\<close> of the service object, \<open>now\<close> the cycle's timestamp,
  \<open>clock\<close> the reading of \<open>timezone.now()\<close> that \<open>auto_now\<close> and the
  notification service take.  An exception of the probe, of the two database writes or
  of the notification service leaves the loop, with what was written before it kept.\<close>

definition check_server ::
  "backend \<Rightarrow> (Server \<Rightarrow> net_call list \<times> (exn + check_data)) \<Rightarrow> settings \<Rightarrow> channels
     \<Rightarrow> timestamp \<Rightarrow> timestamp \<Rightarrow> bool \<Rightarrow> Server \<Rightarrow> world \<Rightarrow> world \<times> (exn + nat \<times> string)" where
  "check_server be service cfg ch clock now send_notifications server w =
     (let (calls, r) = service server;
          w0 = w\<lparr>network_calls := network_calls w @ calls\<rparr>
      in case r of
           Inl e \<Rightarrow> (w0, Inl e)
         | Inr data \<Rightarrow>
             (let ping = \<lparr> ping_server = server_id server,
                           ping_status = data_status data,
                           response_time = data_response_time data,
                           status_code = data_status_code data,
                           error_message = data_error_message data,
                           check_timestamp = now \<rparr>
              in case create_ping be ping w0 of
                   Inl e \<Rightarrow> (w0, Inl e)
                 | Inr w1 \<Rightarrow>
                     (let (status_obj, w2) = get_or_create_status clock server w1;
                          old_status = status status_obj;
                          new_obj = (status_reduction data now status_obj)
                                      \<lparr>status_updated_at := Some clock\<rparr>
                      in case save_status be new_obj w2 of
                           Inl e \<Rightarrow> (w2, Inl e)
                         | Inr w3 \<Rightarrow>
                             (let w4 = w3\<lparr>broadcasts := broadcasts w3 @
                                         [(group_name (server_id server), ping, new_obj)]\<rparr>
                              in if send_notifications \<and> old_status \<noteq> status new_obj then
                                   (case notify_status_change cfg ch clock server new_obj
                                           (Some old_status) w4 of
                                      (w5, Some e) \<Rightarrow> (w5, Inl e)
                                    | (w5, None) \<Rightarrow>
                                        (w5, Inr (server_id server, data_status data)))
                                 else (w4, Inr (server_id server, data_status data))))))"

fun check_servers ::
  "backend \<Rightarrow> (Server \<Rightarrow> net_call list \<times> (exn + check_data)) \<Rightarrow> settings \<Rightarrow> channels
     \<Rightarrow> timestamp \<Rightarrow> timestamp \<Rightarrow> bool \<Rightarrow> Server list \<Rightarrow> (nat \<times> string) list \<Rightarrow> world
     \<Rightarrow> world \<times> (exn + (nat \<times> string) list)" where
  "check_servers be service cfg ch clock now send_notifications [] results w = (w, Inr results)"
| "check_servers be service cfg ch clock now send_notifications (server # rest) results w =
     (case check_server be service cfg ch clock now send_notifications server w of
        (w', Inl e) \<Rightarrow> (w', Inl e)
      | (w', Inr r) \<Rightarrow>
          check_servers be service cfg ch clock now send_notifications rest (results @ [r]) w')"

definition run_all_checks ::
  "backend \<Rightarrow> network \<Rightarrow> settings \<Rightarrow> channels \<Rightarrow> timestamp
     \<Rightarrow> (Server \<Rightarrow> net_call list \<times> (exn + check_data)) option \<Rightarrow> timestamp option
     \<Rightarrow> Server list option \<Rightarrow> bool \<Rightarrow> world \<Rightarrow> world \<times> (exn + (nat \<times> string) list)" where
  "run_all_checks be net cfg ch clock service now queryset send_notifications w =
     (let service' = (case service of Some f \<Rightarrow> f | None \<Rightarrow> run_check net 5);
          now' = (case now of Some t \<Rightarrow> t | None \<Rightarrow> clock);
          servers' = (case queryset of
                        Some q \<Rightarrow> q
                      | None \<Rightarrow> filter (\<lambda>s. server_status s = ''active'') (servers w))
      in check_servers be service' cfg ch clock now' send_notifications servers' [] w)"

section \<open>Resumable event stream (monitoring/views.py, ServerStatusStreamView)\<close>



















section \<open>Reading the tables\<close>

text \<open>The status a server has in the table, as
  \<open>ServerStatus.objects.get(server=...).status\<close> reads it; \<open>None\<close> when the
  server has no row.\<close>

definition persisted_status :: "world \<Rightarrow> nat \<Rightarrow> string option" where
  "persisted_status w sid =
     map_option status (find (\<lambda>r. status_server r = sid) (server_statuses w))"


text \<open>The row a server has in the status table.\<close>

definition status_row :: "nat \<Rightarrow> world \<Rightarrow> ServerStatus option" where
  "status_row k w = find (\<lambda>x. status_server x = k) (server_statuses w)"

section \<open>Concrete inputs\<close>

text \<open>A status row in state up with the default threshold 3, a failed probe whose
  error text is set, and a successful one.\<close>

definition up_status :: ServerStatus where
  "up_status = (default_status 1)\<lparr>status := ''up''\<rparr>"

definition failure_data :: check_data where
  "failure_data = \<lparr> data_status = ''failure'', data_status_code = None,
       data_response_time = None, data_error_message = Some ''connection refused'' \<rparr>"

definition success_data :: check_data where
  "success_data = \<lparr> data_status = ''success'', data_status_code = Some 200,
       data_response_time = Some 50, data_error_message = Some [] \<rparr>"

text \<open>A row whose counter was set below zero, and a row with threshold 1.\<close>

definition negative_status :: ServerStatus where
  "negative_status = (default_status 1)\<lparr>status := ''up'', consecutive_failures := - 1\<rparr>"

definition threshold_one_status :: ServerStatus where
  "threshold_one_status = (default_status 1)\<lparr>status := ''up'', failure_threshold := 1\<rparr>"

text \<open>An https server, the same server with a protocol the service does not know, and
  a network on which every GET answers 503 and every connection times out.\<close>

definition https_server :: Server where
  "https_server = \<lparr> server_id = 1, owner = Some 10, organization = Some 20,
      name = ''api'', protocol = ''https'', host = ''example.com'', port = 443,
      path = ''/health'', timeout = 5, server_status = ''active'' \<rparr>"

definition ftp_server :: Server where
  "ftp_server = https_server\<lparr>protocol := ''ftp''\<rparr>"

definition failing_network :: network where
  "failing_network = \<lparr> requests_get = (\<lambda>url t. HttpResponse 503 12),
                         create_connection = (\<lambda>h p t. TcpTimeout) \<rparr>"

text \<open>A backend with 64-bit integers and no limit on the length of a text, as SQLite:
  it takes the integers from \<open>-2^63\<close> to \<open>2^63 - 1\<close>, every text, and the
  datetimes of the years 1 to 9999.\<close>

definition int64 :: "int \<Rightarrow> bool" where
  "int64 n = (- 9223372036854775808 \<le> n \<and> n \<le> 9223372036854775807)"

definition sqlite_backend :: backend where
  "sqlite_backend =
     \<lparr> accepts_ping = (\<lambda>p. case status_code p of None \<Rightarrow> True | Some c \<Rightarrow> int64 c),
       accepts_status = (\<lambda>r. int64 (consecutive_failures r) \<and> int64 (failure_threshold r)),
       accepts_id = int64,
       accepts_limit = int64,
       accepts_text = (\<lambda>s. True),
       accepts_datetime = (\<lambda>t. - 62135596800000000 \<le> t \<and> t \<le> 253402300799999999) \<rparr>"

text \<open>Empty tables, every channel switched on and working, and a world whose only
  server is the https server.\<close>

definition empty_world :: world where
  "empty_world = \<lparr> servers = [], ping_results = [], server_statuses = [],
     notification_configs = [], user_accounts = [], network_calls = [], outbox = [],
     broadcasts = [] \<rparr>"

definition all_enabled :: settings where
  "all_enabled = \<lparr> EMAIL_NOTIFICATIONS_ENABLED = True, SMS_NOTIFICATIONS_ENABLED = True,
                     twilio_credentials = True \<rparr>"

definition working_channels :: channels where
  "working_channels = \<lparr> send_mail = (\<lambda>r. True), twilio_installed = True,
                          messages_create = (\<lambda>r. True), requests_post = (\<lambda>r. True) \<rparr>"

definition one_server_world :: world where
  "one_server_world = empty_world\<lparr>servers := [https_server]\<rparr>"

text \<open>An email and an SMS config of the https server that were never saved, status rows
  in state down and degraded, a world whose config table holds the email config as
  saved at the given time, and the same world with one account of the server's
  organization holding the given email and SMS credits.\<close>

definition email_config :: NotificationConfig where
  "email_config = \<lparr> config_id = 1, config_server = 1, notification_type = ''email'',
      recipient = ''ops@example.com'', enabled = True, notify_on_failure = True,
      notify_on_recovery = True, min_notification_interval = 300, updated_at = None \<rparr>"

definition sms_config :: NotificationConfig where
  "sms_config = email_config\<lparr>config_id := 2, notification_type := ''sms'',
                  recipient := ''+15551234567''\<rparr>"

definition down_status :: ServerStatus where
  "down_status = (default_status 1)\<lparr>status := ''down'', consecutive_failures := 3\<rparr>"


definition config_world :: "timestamp \<Rightarrow> world" where
  "config_world t = one_server_world\<lparr>notification_configs := [save_config t email_config]\<rparr>"

definition org_account :: "int \<Rightarrow> int \<Rightarrow> UserAccount" where
  "org_account e s = \<lparr> account_id = 1, account_user = None, account_organization = Some 20,
                        sms_credits = s, email_credits = e \<rparr>"

definition account_world :: "int \<Rightarrow> int \<Rightarrow> world" where
  "account_world e s = (config_world 0)\<lparr>user_accounts := [org_account e s]\<rparr>"





section \<open>The status reduction\<close>

text \<open>
  C1.  The update made to a server's status in a check cycle: after a successful probe
  the failure counter is 0, the status is up, \<open>last_up\<close> is the cycle's time and
  the message is OK; after any other outcome the counter is one more than before,
  \<open>last_down\<close> is the cycle's time, the message is the outcome's error message
  when that is non-empty and the outcome's status otherwise, and the status is down
  when the new counter has reached the threshold and degraded when not.  In both cases
  \<open>last_check\<close> is the cycle's time and the threshold is as it was.
\<close>

theorem status_reduction_postconditions:
  "(data_status d = ''success'' \<longrightarrow>
      consecutive_failures (status_reduction d now s) = 0 \<and>
      status (status_reduction d now s) = ''up'' \<and>
      last_up (status_reduction d now s) = Some now \<and>
      message (status_reduction d now s) = Some ''OK'') \<and>
   (data_status d \<noteq> ''success'' \<longrightarrow>
      consecutive_failures (status_reduction d now s) = consecutive_failures s + 1 \<and>
      last_down (status_reduction d now s) = Some now \<and>
      message (status_reduction d now s) =
        Some (case data_error_message d of
                None \<Rightarrow> data_status d
              | Some m \<Rightarrow> if m \<noteq> [] then m else data_status d) \<and>
      status (status_reduction d now s) =
        (if consecutive_failures (status_reduction d now s) \<ge> failure_threshold s
         then ''down'' else ''degraded'')) \<and>
   last_check (status_reduction d now s) = Some now \<and>
   failure_threshold (status_reduction d now s) = failure_threshold s"
  by (simp add: status_reduction_def message_of_def Let_def split: option.splits)

theorem status_reduction_postconditions_witness:
  "consecutive_failures (status_reduction failure_data 7 up_status) = 1 \<and>
   last_down (status_reduction failure_data 7 up_status) = Some 7 \<and>
   message (status_reduction failure_data 7 up_status) = Some ''connection refused'' \<and>
   status (status_reduction failure_data 7 up_status) = ''degraded'' \<and>
   last_check (status_reduction failure_data 7 up_status) = Some 7 \<and>
   failure_threshold (status_reduction failure_data 7 up_status) = 3 \<and>
   consecutive_failures (status_reduction success_data 9 up_status) = 0 \<and>
   status (status_reduction success_data 9 up_status) = ''up'' \<and>
   last_up (status_reduction success_data 9 up_status) = Some 9 \<and>
   message (status_reduction success_data 9 up_status) = Some ''OK''"
  using status_reduction_postconditions [of failure_data 7 up_status]
    status_reduction_postconditions [of success_data 9 up_status]
  by (simp add: failure_data_def success_data_def up_status_def default_status_def)

text \<open>
  The counter column is a signed integer.  From a row whose counter is -1 a failed
  probe gives the status degraded with the counter at 0, so the invariant of C2 does
  not hold after the update of every prior row.
\<close>

theorem negative_counter_breaks_invariant:
  "status (status_reduction failure_data 7 negative_status) = ''degraded'' \<and>
   \<not> (0 < consecutive_failures (status_reduction failure_data 7 negative_status))"
  by (simp add: status_reduction_def failure_data_def negative_status_def default_status_def
      Let_def)

text \<open>
  C2.  The invariant of a status row after the update, for every prior row whose counter
  is not negative and every outcome: down only with the counter at or above the
  threshold, degraded only with the counter above zero and below the threshold, up
  only with the counter at zero; and the counter is again not negative.
\<close>

theorem status_invariant_after_reduction:
  assumes "0 \<le> consecutive_failures s"
  shows "(status (status_reduction d now s) = ''down'' \<longrightarrow>
            consecutive_failures (status_reduction d now s)
              \<ge> failure_threshold (status_reduction d now s)) \<and>
         (status (status_reduction d now s) = ''degraded'' \<longrightarrow>
            0 < consecutive_failures (status_reduction d now s) \<and>
            consecutive_failures (status_reduction d now s)
              < failure_threshold (status_reduction d now s)) \<and>
         (status (status_reduction d now s) = ''up'' \<longrightarrow>
            consecutive_failures (status_reduction d now s) = 0) \<and>
         0 \<le> consecutive_failures (status_reduction d now s)"
  using assms by (simp add: status_reduction_def Let_def)

theorem status_invariant_after_reduction_witness:
  "0 \<le> consecutive_failures up_status \<and>
   status (status_reduction failure_data 7 up_status) = ''degraded'' \<and>
   0 < consecutive_failures (status_reduction failure_data 7 up_status) \<and>
   consecutive_failures (status_reduction failure_data 7 up_status)
     < failure_threshold (status_reduction failure_data 7 up_status)"
proof -
  have h: "0 \<le> consecutive_failures up_status"
    by (simp add: up_status_def default_status_def)
  have st: "status (status_reduction failure_data 7 up_status) = ''degraded''"
    by (simp add: status_reduction_def failure_data_def up_status_def default_status_def
        Let_def)
  from status_invariant_after_reduction [OF h, of failure_data 7] st h
  show ?thesis by simp
qed

section \<open>Streaks of failures\<close>

lemma reduce_all_failures:
  assumes "\<forall>d \<in> set (map fst os). data_status d \<noteq> ''success''" and "os \<noteq> []"
  shows "consecutive_failures (reduce_all os s) = consecutive_failures s + int (length os) \<and>
         failure_threshold (reduce_all os s) = failure_threshold s \<and>
         status (reduce_all os s) =
           (if consecutive_failures s + int (length os) \<ge> failure_threshold s
            then ''down'' else ''degraded'')"
  using assms
proof (induction os arbitrary: s)
  case Nil
  then show ?case by simp
next
  case (Cons a os)
  obtain d now where a: "a = (d, now)" by (cases a)
  show ?case
  proof (cases "os = []")
    case True
    with Cons.prems a show ?thesis by (simp add: status_reduction_def Let_def)
  next
    case False
    with Cons a show ?thesis by (simp add: status_reduction_def Let_def)
  qed
qed

text \<open>
  With threshold 1 the first failed probe takes a server from up, counter 0, to down:
  there is no degraded in between, against the last part of C3.
\<close>

theorem threshold_one_skips_degraded:
  "status threshold_one_status = ''up'' \<and> consecutive_failures threshold_one_status = 0 \<and>
   failure_threshold threshold_one_status = 1 \<and>
   data_status failure_data \<noteq> ''success'' \<and>
   status (status_reduction failure_data 7 threshold_one_status) = ''down''"
  by (simp add: status_reduction_def failure_data_def threshold_one_status_def
      default_status_def Let_def)

text \<open>
  C3.  A server in state up with counter 0 and threshold T of at least 1: after T or more
  failed probes in a row the status is down; after k of them, k from 1 to T - 1, it is
  degraded; and the first failed probe gives degraded unless T = 1, where it gives
  down.
\<close>

theorem failure_streak_status:
  assumes "status s = ''up''" and "consecutive_failures s = 0"
    and "failure_threshold s = T" and "1 \<le> T"
    and "\<forall>d \<in> set (map fst os). data_status d \<noteq> ''success''"
  shows "(T \<le> int (length os) \<longrightarrow> status (reduce_all os s) = ''down'') \<and>
         (1 \<le> int (length os) \<and> int (length os) \<le> T - 1
            \<longrightarrow> status (reduce_all os s) = ''degraded'') \<and>
         (data_status d \<noteq> ''success'' \<longrightarrow>
            status (status_reduction d now s) = (if T = 1 then ''down'' else ''degraded''))"
proof (intro conjI impI)
  assume len: "T \<le> int (length os)"
  with assms(4) have "os \<noteq> []" by auto
  from reduce_all_failures [OF assms(5) this, of s] len assms(2,3)
  show "status (reduce_all os s) = ''down''" by simp
next
  assume len: "1 \<le> int (length os) \<and> int (length os) \<le> T - 1"
  then have "os \<noteq> []" by auto
  from reduce_all_failures [OF assms(5) this, of s] len assms(2,3)
  show "status (reduce_all os s) = ''degraded''" by simp
next
  assume "data_status d \<noteq> ''success''"
  with assms(2,3,4)
  show "status (status_reduction d now s) = (if T = 1 then ''down'' else ''degraded'')"
    by (simp add: status_reduction_def Let_def)
qed

theorem failure_streak_status_witness:
  "status up_status = ''up'' \<and> consecutive_failures up_status = 0 \<and>
   failure_threshold up_status = 3 \<and>
   status (reduce_all [(failure_data, 1), (failure_data, 2), (failure_data, 3)] up_status)
     = ''down'' \<and>
   status (reduce_all [(failure_data, 1), (failure_data, 2)] up_status) = ''degraded'' \<and>
   status (status_reduction failure_data 1 up_status) = ''degraded''"
proof -
  have a: "status up_status = ''up''" and b: "consecutive_failures up_status = 0"
    and c: "failure_threshold up_status = 3"
    by (simp_all add: up_status_def default_status_def)
  have f: "data_status failure_data \<noteq> ''success''" by (simp add: failure_data_def)
  have three: "\<forall>d \<in> set (map fst [(failure_data, 1::int), (failure_data, 2), (failure_data, 3)]).
                 data_status d \<noteq> ''success''"
    using f by simp
  have two: "\<forall>d \<in> set (map fst [(failure_data, 1::int), (failure_data, 2)]).
                 data_status d \<noteq> ''success''"
    using f by simp
  from failure_streak_status [OF a b c _ three, of failure_data 1]
    failure_streak_status [OF a b c _ two, of failure_data 1] a b c f
  show ?thesis by simp
qed

section \<open>The probe\<close>

lemma full_url_https_server: "full_url https_server = ''https://example.com:443/health''"
  by code_simp

lemma run_check_https_server:
  "run_check failing_network 5 https_server =
     ([HttpGet ''https://example.com:443/health'' 5],
      Inr \<lparr> data_status = ''failure'', data_status_code = Some 503,
            data_response_time = Some 12, data_error_message = Some [] \<rparr>)"
  by (simp add: run_check_def check_http_def full_url_https_server effective_timeout_def
      failing_network_def Let_def)
     (simp add: https_server_def)

text \<open>
  C4.  For an http or https server the probe makes one GET of the server's URL with its
  timeout and returns an outcome (it never raises): success exactly when a response
  came with a code below 500, failure exactly when one came with a code of 500 or
  more, timeout exactly when the transport raised its timeout error, error exactly when
  it raised anything else, and then the error message is the exception's text.  For a
  protocol other than http, https, tcp and icmp the outcome is error with the message
  \<open>unsupported protocol: \<close> followed by the protocol, and no network call is made.
\<close>

theorem run_check_classification:
  "(protocol s = ''http'' \<or> protocol s = ''https'' \<longrightarrow>
      (\<exists>d. run_check net dt s = ([HttpGet (full_url s) (effective_timeout dt s)], Inr d) \<and>
         (data_status d = ''success'' \<longleftrightarrow>
            (\<exists>code elapsed. requests_get net (full_url s) (effective_timeout dt s)
                               = HttpResponse code elapsed \<and> code < 500)) \<and>
         (data_status d = ''failure'' \<longleftrightarrow>
            (\<exists>code elapsed. requests_get net (full_url s) (effective_timeout dt s)
                               = HttpResponse code elapsed \<and> code \<ge> 500)) \<and>
         (data_status d = ''timeout'' \<longleftrightarrow>
            requests_get net (full_url s) (effective_timeout dt s) = HttpTimeout) \<and>
         (data_status d = ''error'' \<longleftrightarrow>
            (\<exists>text. requests_get net (full_url s) (effective_timeout dt s)
                       = HttpException text)) \<and>
         (\<forall>text. requests_get net (full_url s) (effective_timeout dt s) = HttpException text
            \<longrightarrow> data_error_message d = Some text))) \<and>
   (protocol s \<notin> {''http'', ''https'', ''tcp'', ''icmp''} \<longrightarrow>
      run_check net dt s =
        ([], Inr \<lparr> data_status = ''error'', data_status_code = None,
                    data_response_time = None,
                    data_error_message = Some (''unsupported protocol: '' @ protocol s) \<rparr>))"
proof (intro conjI impI)
  assume p: "protocol s = ''http'' \<or> protocol s = ''https''"
  then have rc: "run_check net dt s = check_http net dt s"
    by (auto simp: run_check_def)
  show "\<exists>d. run_check net dt s = ([HttpGet (full_url s) (effective_timeout dt s)], Inr d) \<and>
         (data_status d = ''success'' \<longleftrightarrow>
            (\<exists>code elapsed. requests_get net (full_url s) (effective_timeout dt s)
                               = HttpResponse code elapsed \<and> code < 500)) \<and>
         (data_status d = ''failure'' \<longleftrightarrow>
            (\<exists>code elapsed. requests_get net (full_url s) (effective_timeout dt s)
                               = HttpResponse code elapsed \<and> code \<ge> 500)) \<and>
         (data_status d = ''timeout'' \<longleftrightarrow>
            requests_get net (full_url s) (effective_timeout dt s) = HttpTimeout) \<and>
         (data_status d = ''error'' \<longleftrightarrow>
            (\<exists>text. requests_get net (full_url s) (effective_timeout dt s)
                       = HttpException text)) \<and>
         (\<forall>text. requests_get net (full_url s) (effective_timeout dt s) = HttpException text
            \<longrightarrow> data_error_message d = Some text)"
    unfolding rc check_http_def Let_def
    by (cases "requests_get net (full_url s) (effective_timeout dt s)") simp_all
next
  assume "protocol s \<notin> {''http'', ''https'', ''tcp'', ''icmp''}"
  then show "run_check net dt s =
        ([], Inr \<lparr> data_status = ''error'', data_status_code = None,
                    data_response_time = None,
                    data_error_message = Some (''unsupported protocol: '' @ protocol s) \<rparr>)"
    by (simp add: run_check_def)
qed

theorem run_check_classification_witness:
  "run_check failing_network 5 https_server =
     ([HttpGet ''https://example.com:443/health'' 5],
      Inr \<lparr> data_status = ''failure'', data_status_code = Some 503,
            data_response_time = Some 12, data_error_message = Some [] \<rparr>) \<and>
   run_check failing_network 5 ftp_server =
     ([], Inr \<lparr> data_status = ''error'', data_status_code = None, data_response_time = None,
                 data_error_message = Some ''unsupported protocol: ftp'' \<rparr>)"
proof -
  have t: "effective_timeout 5 https_server = 5"
    by (simp add: effective_timeout_def https_server_def)
  have r: "requests_get failing_network ''https://example.com:443/health'' 5
             = HttpResponse 503 12"
    by (simp add: failing_network_def)
  have p: "protocol https_server = ''https''" by (simp add: https_server_def)
  have q: "protocol ftp_server = ''ftp''" by (simp add: ftp_server_def)
  from run_check_classification [of https_server failing_network 5] p
    full_url_https_server t r
  obtain d where d: "run_check failing_network 5 https_server =
       ([HttpGet ''https://example.com:443/health'' 5], Inr d)"
    by auto
  have d_eq: "d = \<lparr> data_status = ''failure'', data_status_code = Some 503,
            data_response_time = Some 12, data_error_message = Some [] \<rparr>"
    using d run_check_https_server by simp
  from run_check_classification [of ftp_server failing_network 5] q
  have "run_check failing_network 5 ftp_server =
     ([], Inr \<lparr> data_status = ''error'', data_status_code = None, data_response_time = None,
                 data_error_message = Some ''unsupported protocol: ftp'' \<rparr>)"
    by simp
  with d d_eq show ?thesis by simp
qed

section \<open>The check cycle\<close>

text \<open>The notification service writes to the config and account tables and to the
  outbox; it leaves the status table alone.\<close>

lemma stamp_config_statuses: "server_statuses (stamp_config clock c w) = server_statuses w"
  by (simp add: stamp_config_def)

lemma consume_email_statuses: "server_statuses (snd (consume_email a w)) = server_statuses w"
  by (simp add: consume_email_def)

lemma consume_sms_statuses: "server_statuses (snd (consume_sms a w)) = server_statuses w"
  by (simp add: consume_sms_def)

lemma send_email_statuses:
  "server_statuses (send_email cfg ch clock server st c r w) = server_statuses w"
  by (simp add: send_email_def Let_def stamp_config_statuses consume_email_statuses
      split: option.splits)

lemma send_sms_statuses:
  "server_statuses (send_sms cfg ch clock server st c r w) = server_statuses w"
  by (simp add: send_sms_def Let_def stamp_config_statuses consume_sms_statuses
      split: option.splits)

lemma send_webhook_statuses:
  "server_statuses (send_webhook ch clock server st c r p w) = server_statuses w"
  by (simp add: send_webhook_def Let_def stamp_config_statuses)

lemma notify_configs_statuses:
  "server_statuses (fst (notify_configs cfg ch clock server st r p cs w)) = server_statuses w"
  by (induction cs arbitrary: w)
     (simp_all add: send_email_statuses send_sms_statuses send_webhook_statuses
        split: sum.splits)

lemma notify_status_change_statuses:
  "server_statuses (fst (notify_status_change cfg ch clock server st p w)) = server_statuses w"
  by (simp add: notify_status_change_def Let_def notify_configs_statuses)

lemma find_map_replace:
  assumes "key n = k"
  shows "find (\<lambda>r. key r = k) (map (\<lambda>r. if key r = k then n else r) xs) =
         (if \<exists>r \<in> set xs. key r = k then Some n else None)"
  using assms by (induction xs) auto

lemma find_map_other:
  assumes "k' \<noteq> k" and "key n = k"
  shows "find (\<lambda>r. key r = k') (map (\<lambda>r. if key r = k then n else r) xs) =
         find (\<lambda>r. key r = k') xs"
  using assms by (induction xs) auto

lemma find_append_other:
  "\<not> P r \<Longrightarrow> find P (xs @ [r]) = find P xs"
  by (induction xs) auto

lemma find_append_new:
  "find P xs = None \<Longrightarrow> P r \<Longrightarrow> find P (xs @ [r]) = Some r"
  by (induction xs) (auto split: if_splits)

lemma status_reduction_server:
  "status_server (status_reduction d now s) = status_server s"
  by (simp add: status_reduction_def Let_def)

lemma status_reduction_known:
  "status (status_reduction d now s) \<in> {''up'', ''down'', ''degraded''}"
  by (simp add: status_reduction_def Let_def)

lemma get_or_create_status_row:
  assumes "get_or_create_status clock server w = (r, w')"
  shows "find (\<lambda>x. status_server x = server_id server) (server_statuses w') = Some r
         \<and> status_server r = server_id server
         \<and> (find (\<lambda>x. status_server x = server_id server) (server_statuses w) \<noteq> None
              \<longrightarrow> server_statuses w' = server_statuses w)
         \<and> (\<forall>k. k \<noteq> server_id server \<longrightarrow>
               find (\<lambda>x. status_server x = k) (server_statuses w')
               = find (\<lambda>x. status_server x = k) (server_statuses w))"
proof (cases "find (\<lambda>x. status_server x = server_id server) (server_statuses w)")
  case None
  with assms have r: "r = (default_status (server_id server))\<lparr>status_updated_at := Some clock\<rparr>"
    and w': "w' = w\<lparr>server_statuses := server_statuses w @ [r]\<rparr>"
    by (auto simp: get_or_create_status_def Let_def)
  have k: "status_server r = server_id server" by (simp add: r default_status_def)
  show ?thesis using None k by (simp add: w' find_append_new find_append_other)
next
  case (Some a)
  with assms have "r = a" "w' = w" by (auto simp: get_or_create_status_def)
  moreover from Some have "status_server a = server_id server"
    by (auto simp: find_Some_iff)
  ultimately show ?thesis using Some by simp
qed

text \<open>What one pass of the loop leaves in the status table.\<close>

lemma check_server_statuses:
  "\<exists>w' res. check_server be service cfg ch clock now sn server w = (w', res) \<and>
           (\<forall>k. k \<noteq> server_id server \<longrightarrow> status_row k w' = status_row k w) \<and>
           ((\<exists>d prior. status_row (server_id server) w'
                = Some ((status_reduction d now prior)\<lparr>status_updated_at := Some clock\<rparr>))
            \<or> ((\<exists>e. res = Inl e) \<and>
                (status_row (server_id server) w \<noteq> None \<longrightarrow> server_statuses w' = server_statuses w)))"
proof -
  obtain calls r where sv: "service server = (calls, r)" by (cases "service server")
  define w0 where "w0 = w\<lparr>network_calls := network_calls w @ calls\<rparr>"
  have st0: "server_statuses w0 = server_statuses w" by (simp add: w0_def)
  show ?thesis
  proof (cases r)
    case (Inl e)
    with sv show ?thesis by (simp add: check_server_def status_row_def)
  next
    case (Inr d)
    define ping where "ping = \<lparr> ping_server = server_id server,
                           ping_status = data_status d,
                           response_time = data_response_time d,
                           status_code = data_status_code d,
                           error_message = data_error_message d,
                           check_timestamp = now \<rparr>"
    show ?thesis
    proof (cases "accepts_ping be ping")
      case False
      with sv Inr show ?thesis
        by (simp add: check_server_def create_ping_def ping_def [symmetric] status_row_def)
    next
      case True
      define w1 where "w1 = w0\<lparr>ping_results := ping_results w0 @ [ping]\<rparr>"
      have st1: "server_statuses w1 = server_statuses w" by (simp add: w1_def st0)
      obtain obj w2 where g: "get_or_create_status clock server w1 = (obj, w2)"
        by (cases "get_or_create_status clock server w1")
      note gr = get_or_create_status_row [OF g, unfolded st1]
      define n where "n = (status_reduction d now obj)\<lparr>status_updated_at := Some clock\<rparr>"
      have key: "status_server n = server_id server"
        using gr by (simp add: n_def status_reduction_server)
      show ?thesis
      proof (cases "accepts_status be n")
        case False
        with sv Inr True g gr show ?thesis
          by (simp add: check_server_def create_ping_def save_status_def ping_def [symmetric]
              w0_def [symmetric] w1_def [symmetric] n_def [symmetric] status_row_def)
      next
        case ok: True
        define w3 where "w3 = w2\<lparr>server_statuses :=
               map (\<lambda>r. if status_server r = status_server n then n else r)
                   (server_statuses w2)\<rparr>"
        have mem: "\<exists>x \<in> set (server_statuses w2). status_server x = server_id server"
          using gr by (auto simp: find_Some_iff)
        have saved: "status_row (server_id server) w3 = Some n"
          using find_map_replace [of status_server n "server_id server" "server_statuses w2"]
            key mem
          by (simp add: w3_def status_row_def)
        have others: "k \<noteq> server_id server \<Longrightarrow> status_row k w3 = status_row k w" for k
          using find_map_other [of k "server_id server" status_server n "server_statuses w2"]
            key gr
          by (simp add: w3_def status_row_def)
        define w4 where "w4 = w3\<lparr>broadcasts := broadcasts w3 @
                                         [(group_name (server_id server), ping, n)]\<rparr>"
        have st4: "server_statuses w4 = server_statuses w3" by (simp add: w4_def)
        obtain w5 x where nt: "notify_status_change cfg ch clock server n (Some (status obj)) w4
                                = (w5, x)"
          by (cases "notify_status_change cfg ch clock server n (Some (status obj)) w4")
        have st5: "server_statuses w5 = server_statuses w3"
          using notify_status_change_statuses [of cfg ch clock server n "Some (status obj)" w4]
            nt st4 by simp
        have final: "\<exists>w' res. check_server be service cfg ch clock now sn server w = (w', res)
                       \<and> server_statuses w' = server_statuses w3"
          using sv Inr True g ok nt st5
          unfolding w4_def w3_def n_def w1_def w0_def ping_def
          by (auto simp: check_server_def create_ping_def save_status_def Let_def
              split: option.splits)
        then obtain w' res where
          cs: "check_server be service cfg ch clock now sn server w = (w', res)"
          and st': "server_statuses w' = server_statuses w3" by blast
        have "status_row k w' = status_row k w3" for k using st' by (simp add: status_row_def)
        with cs saved others show ?thesis unfolding n_def by metis
      qed
    qed
  qed
qed


lemma persisted_status_row: "persisted_status w k = map_option status (status_row k w)"
  by (simp add: persisted_status_def status_row_def)

lemma check_server_establishes:
  assumes "check_server be service cfg ch clock now sn server w = (w', Inr out)"
  shows "persisted_status w' (server_id server) \<in> Some ` {''up'', ''down'', ''degraded''}"
proof -
  from check_server_statuses [of be service cfg ch clock now sn server w] assms
  obtain d prior where "status_row (server_id server) w'
       = Some ((status_reduction d now prior)\<lparr>status_updated_at := Some clock\<rparr>)"
    by auto
  then show ?thesis
    using status_reduction_known [of d now prior] by (simp add: persisted_status_row)
qed

lemma check_server_keeps:
  assumes "persisted_status w k \<in> Some ` {''up'', ''down'', ''degraded''}"
  shows "persisted_status (fst (check_server be service cfg ch clock now sn server w)) k
           \<in> Some ` {''up'', ''down'', ''degraded''}"
proof -
  from check_server_statuses [of be service cfg ch clock now sn server w]
  obtain w' res where cs: "check_server be service cfg ch clock now sn server w = (w', res)"
    and others: "\<forall>k. k \<noteq> server_id server \<longrightarrow> status_row k w' = status_row k w"
    and same: "(\<exists>d prior. status_row (server_id server) w'
                = Some ((status_reduction d now prior)\<lparr>status_updated_at := Some clock\<rparr>))
            \<or> ((\<exists>e. res = Inl e) \<and>
                (status_row (server_id server) w \<noteq> None
                   \<longrightarrow> server_statuses w' = server_statuses w))"
    by blast
  show ?thesis
  proof (cases "k = server_id server")
    case False
    with others assms cs show ?thesis by (simp add: persisted_status_row)
  next
    case True
    from same show ?thesis
    proof
      assume "\<exists>d prior. status_row (server_id server) w'
                = Some ((status_reduction d now prior)\<lparr>status_updated_at := Some clock\<rparr>)"
      then obtain d prior where "status_row (server_id server) w'
                = Some ((status_reduction d now prior)\<lparr>status_updated_at := Some clock\<rparr>)"
        by blast
      with True cs status_reduction_known [of d now prior] show ?thesis
        by (simp add: persisted_status_row)
    next
      assume a: "(\<exists>e. res = Inl e) \<and>
                (status_row (server_id server) w \<noteq> None
                   \<longrightarrow> server_statuses w' = server_statuses w)"
      from assms True have "status_row (server_id server) w \<noteq> None"
        by (auto simp: persisted_status_row)
      with a have "server_statuses w' = server_statuses w" by simp
      with assms cs show ?thesis by (simp add: persisted_status_def)
    qed
  qed
qed

lemma check_servers_keeps:
  assumes "persisted_status w k \<in> Some ` {''up'', ''down'', ''degraded''}"
  shows "persisted_status (fst (check_servers be service cfg ch clock now sn ss results w)) k
           \<in> Some ` {''up'', ''down'', ''degraded''}"
  using assms
proof (induction ss arbitrary: results w)
  case Nil
  then show ?case by simp
next
  case (Cons s ss)
  obtain w1 r1 where step: "check_server be service cfg ch clock now sn s w = (w1, r1)"
    by (cases "check_server be service cfg ch clock now sn s w")
  from check_server_keeps [OF Cons.prems, of be service cfg ch clock now sn s] step
  have k1: "persisted_status w1 k \<in> Some ` {''up'', ''down'', ''degraded''}" by simp
  show ?case
  proof (cases r1)
    case (Inl e)
    with step k1 show ?thesis by simp
  next
    case (Inr r)
    with step Cons.IH [OF k1] show ?thesis by simp
  qed
qed

lemma check_servers_known:
  assumes "snd (check_servers be service cfg ch clock now sn ss results w) = Inr out"
    and "s \<in> set ss"
  shows "persisted_status (fst (check_servers be service cfg ch clock now sn ss results w))
           (server_id s) \<in> Some ` {''up'', ''down'', ''degraded''}"
  using assms
proof (induction ss arbitrary: results w)
  case Nil
  then show ?case by simp
next
  case (Cons a ss)
  obtain w1 r1 where step: "check_server be service cfg ch clock now sn a w = (w1, r1)"
    by (cases "check_server be service cfg ch clock now sn a w")
  show ?case
  proof (cases r1)
    case (Inl e)
    with step Cons.prems show ?thesis by simp
  next
    case (Inr r)
    with step have rest: "check_servers be service cfg ch clock now sn (a # ss) results w
        = check_servers be service cfg ch clock now sn ss (results @ [r]) w1"
      by simp
    show ?thesis
    proof (cases "s \<in> set ss")
      case True
      with Cons.IH [of "results @ [r]" w1] Cons.prems(1) rest show ?thesis by simp
    next
      case False
      with Cons.prems(2) have "s = a" by simp
      with step Inr check_server_establishes [of be service cfg ch clock now sn a w w1 r]
      have "persisted_status w1 (server_id s) \<in> Some ` {''up'', ''down'', ''degraded''}"
        by simp
      from check_servers_keeps [OF this] rest show ?thesis by simp
    qed
  qed
qed

lemma check_cycle_https_server:
  "snd (run_all_checks sqlite_backend failing_network all_enabled working_channels 100 None
          (Some 90) None True one_server_world) = Inr [(1, ''failure'')]"
proof -
  have i: "server_id https_server = 1" and a: "server_status https_server = ''active''"
    by (simp_all add: https_server_def)
  have "snd (check_server sqlite_backend (run_check failing_network 5) all_enabled
               working_channels 100 90 True https_server one_server_world)
          = Inr (1, ''failure'')"
    by (simp add: check_server_def run_check_https_server i create_ping_def
        save_status_def get_or_create_status_def sqlite_backend_def int64_def
        default_status_def status_reduction_def message_of_def notify_status_change_def
        is_failure_status_def is_recovery_change_def selected_configs_def
        one_server_world_def empty_world_def Let_def)
  then obtain w' where "check_server sqlite_backend (run_check failing_network 5) all_enabled
               working_channels 100 90 True https_server one_server_world
          = (w', Inr (1, ''failure''))"
    by (cases "check_server sqlite_backend (run_check failing_network 5) all_enabled
               working_channels 100 90 True https_server one_server_world") simp
  then show ?thesis
    by (simp add: run_all_checks_def a)
       (simp add: one_server_world_def empty_world_def a)
qed

text \<open>
  C10.  When a check cycle returns, every server it went through has a row in the status
  table whose status is up, down or degraded.  The update never yields unknown; unknown
  is the status of the row that is created for a server that has none, before the
  update is applied to it.
\<close>

theorem persisted_status_known:
  "(snd (run_all_checks be net cfg ch clock service now queryset sn w) = Inr out \<longrightarrow>
      (\<forall>s \<in> set (case queryset of
                     Some q \<Rightarrow> q
                   | None \<Rightarrow> filter (\<lambda>s. server_status s = ''active'') (servers w)).
         persisted_status (fst (run_all_checks be net cfg ch clock service now queryset sn w))
           (server_id s) \<in> {Some ''up'', Some ''down'', Some ''degraded''})) \<and>
   status (status_reduction d t s0) \<in> {''up'', ''down'', ''degraded''} \<and>
   status (status_reduction d t s0) \<noteq> ''unknown'' \<and>
   status (default_status sid) = ''unknown''"
proof (intro conjI impI ballI)
  fix s
  assume ok: "snd (run_all_checks be net cfg ch clock service now queryset sn w) = Inr out"
    and s: "s \<in> set (case queryset of
                     Some q \<Rightarrow> q
                   | None \<Rightarrow> filter (\<lambda>s. server_status s = ''active'') (servers w))"
  from check_servers_known [of be _ cfg ch clock _ sn _ "[]" w out s] ok s
  show "persisted_status (fst (run_all_checks be net cfg ch clock service now queryset sn w))
           (server_id s) \<in> {Some ''up'', Some ''down'', Some ''degraded''}"
    by (auto simp: run_all_checks_def Let_def)
next
  show "status (status_reduction d t s0) \<in> {''up'', ''down'', ''degraded''}"
    by (rule status_reduction_known)
  then show "status (status_reduction d t s0) \<noteq> ''unknown''" by auto
  show "status (default_status sid) = ''unknown''" by (simp add: default_status_def)
qed

theorem persisted_status_known_witness:
  "snd (run_all_checks sqlite_backend failing_network all_enabled working_channels 100 None
          (Some 90) None True one_server_world) = Inr [(1, ''failure'')] \<and>
   persisted_status
     (fst (run_all_checks sqlite_backend failing_network all_enabled working_channels 100 None
             (Some 90) None True one_server_world)) 1
     \<in> {Some ''up'', Some ''down'', Some ''degraded''}"
proof -
  have m: "https_server \<in> set (case None of
                     Some q \<Rightarrow> q
                   | None \<Rightarrow> filter (\<lambda>s. server_status s = ''active'')
                               (servers one_server_world))"
    by (simp add: one_server_world_def empty_world_def https_server_def)
  have i: "server_id https_server = 1" by (simp add: https_server_def)
  from persisted_status_known [of sqlite_backend failing_network all_enabled working_channels
      100 None "Some 90" None True one_server_world "[(1, ''failure'')]"]
    check_cycle_https_server m i
  show ?thesis by (simp del: One_nat_def) metis
qed

section \<open>Notification dispatch\<close>





text \<open>What the adapters add to the outbox, and what they leave of the account table.\<close>

lemma stamp_config_outbox: "outbox (stamp_config clock c w) = outbox w"
  by (simp add: stamp_config_def)

lemma stamp_config_accounts: "user_accounts (stamp_config clock c w) = user_accounts w"
  by (simp add: stamp_config_def)

lemma consume_email_outbox: "outbox (snd (consume_email a w)) = outbox w"
  by (simp add: consume_email_def)

lemma consume_sms_outbox: "outbox (snd (consume_sms a w)) = outbox w"
  by (simp add: consume_sms_def)









section \<open>Credits\<close>

lemma find_map_same:
  assumes "\<And>x. P (f x) = P x"
  shows "find P (map f xs) = map_option f (find P xs)"
  using assms by (induction xs) auto

lemma find_key: "find P xs = Some a \<Longrightarrow> P a"
  by (auto simp: find_Some_iff)

lemma get_account_map:
  assumes "\<And>x. account_organization (f x) = account_organization x"
    and "\<And>x. account_user (f x) = account_user x"
  shows "get_account (w\<lparr>user_accounts := map f (user_accounts w)\<rparr>) s
           = map_option f (get_account w s)"
proof -
  have o: "find (\<lambda>a. account_organization a = k) (map f (user_accounts w))
             = map_option f (find (\<lambda>a. account_organization a = k) (user_accounts w))" for k
    by (rule find_map_same) (simp add: assms)
  have u: "find (\<lambda>a. account_user a = k) (map f (user_accounts w))
             = map_option f (find (\<lambda>a. account_user a = k) (user_accounts w))" for k
    by (rule find_map_same) (simp add: assms)
  show ?thesis
    by (simp add: get_account_def owner_account_def o u split: option.splits)
qed

lemma get_account_frame:
  "user_accounts w' = user_accounts w \<Longrightarrow> get_account w' s = get_account w s"
  by (simp add: get_account_def owner_account_def cong: option.case_cong)

lemma consume_email_account:
  assumes "get_account w s = Some a" and "0 < email_credits a"
  shows "get_account (snd (consume_email a w)) s = Some (a\<lparr>email_credits := email_credits a - 1\<rparr>)"
proof -
  let ?f = "\<lambda>r. if account_id r = account_id a
                  then r\<lparr>email_credits := email_credits a - 1\<rparr> else r"
  have "get_account (w\<lparr>user_accounts := map ?f (user_accounts w)\<rparr>) s
          = map_option ?f (get_account w s)"
    by (rule get_account_map) simp_all
  with assms show ?thesis by (simp add: consume_email_def)
qed

lemma consume_sms_account:
  assumes "get_account w s = Some a" and "0 < sms_credits a"
  shows "get_account (snd (consume_sms a w)) s = Some (a\<lparr>sms_credits := sms_credits a - 1\<rparr>)"
proof -
  let ?f = "\<lambda>r. if account_id r = account_id a
                  then r\<lparr>sms_credits := sms_credits a - 1\<rparr> else r"
  have "get_account (w\<lparr>user_accounts := map ?f (user_accounts w)\<rparr>) s
          = map_option ?f (get_account w s)"
    by (rule get_account_map) simp_all
  with assms show ?thesis by (simp add: consume_sms_def)
qed

lemma get_account_outbox:
  "get_account (w\<lparr>outbox := x\<rparr>) s = get_account w s"
  by (rule get_account_frame) simp

lemma get_account_stamp:
  "get_account (stamp_config clock c w) s = get_account w s"
  by (rule get_account_frame) (simp add: stamp_config_def)

lemma account_world_account:
  "get_account (account_world e s) https_server = Some (org_account e s)"
  by (simp add: get_account_def account_world_def config_world_def one_server_world_def
      empty_world_def https_server_def org_account_def)

text \<open>
  C7.  When the server's account has no email (SMS) credit left, the email (SMS) adapter
  changes nothing: nothing is sent and the counter stays as it is.  When the account
  has credit and the transport delivers, one delivery is handed over and the account's
  counter of that channel is one less than before.
\<close>

theorem credit_check:
  "(get_account w server = Some a \<and> email_credits a \<le> 0 \<longrightarrow>
      send_email cfg ch clock server st c r w = w) \<and>
   (get_account w server = Some a \<and> sms_credits a \<le> 0 \<longrightarrow>
      send_sms cfg ch clock server st c r w = w) \<and>
   (EMAIL_NOTIFICATIONS_ENABLED cfg \<and> get_account w server = Some a \<and> 0 < email_credits a
      \<and> send_mail ch (recipient c) \<longrightarrow>
      outbox (send_email cfg ch clock server st c r w) = outbox w @ [Email (recipient c) r] \<and>
      get_account (send_email cfg ch clock server st c r w) server
        = Some (a\<lparr>email_credits := email_credits a - 1\<rparr>)) \<and>
   (SMS_NOTIFICATIONS_ENABLED cfg \<and> twilio_installed ch \<and> twilio_credentials cfg
      \<and> get_account w server = Some a \<and> 0 < sms_credits a
      \<and> messages_create ch (recipient c) \<longrightarrow>
      outbox (send_sms cfg ch clock server st c r w) = outbox w @ [Sms (recipient c) r] \<and>
      get_account (send_sms cfg ch clock server st c r w) server
        = Some (a\<lparr>sms_credits := sms_credits a - 1\<rparr>))"
proof (intro conjI impI)
  assume "get_account w server = Some a \<and> email_credits a \<le> 0"
  then show "send_email cfg ch clock server st c r w = w"
    by (simp add: send_email_def)
next
  assume "get_account w server = Some a \<and> sms_credits a \<le> 0"
  then show "send_sms cfg ch clock server st c r w = w"
    by (simp add: send_sms_def)
next
  assume h: "EMAIL_NOTIFICATIONS_ENABLED cfg \<and> get_account w server = Some a
      \<and> 0 < email_credits a \<and> send_mail ch (recipient c)"
  then show "outbox (send_email cfg ch clock server st c r w)
               = outbox w @ [Email (recipient c) r]"
    by (simp add: send_email_def Let_def stamp_config_outbox consume_email_outbox)
  from h have g: "get_account (w\<lparr>outbox := outbox w @ [Email (recipient c) r]\<rparr>) server = Some a"
    by (simp add: get_account_outbox)
  from h consume_email_account [OF g]
  show "get_account (send_email cfg ch clock server st c r w) server
        = Some (a\<lparr>email_credits := email_credits a - 1\<rparr>)"
    by (simp add: send_email_def Let_def get_account_stamp)
next
  assume h: "SMS_NOTIFICATIONS_ENABLED cfg \<and> twilio_installed ch \<and> twilio_credentials cfg
      \<and> get_account w server = Some a \<and> 0 < sms_credits a
      \<and> messages_create ch (recipient c)"
  then show "outbox (send_sms cfg ch clock server st c r w) = outbox w @ [Sms (recipient c) r]"
    by (simp add: send_sms_def Let_def stamp_config_outbox consume_sms_outbox)
  from h have g: "get_account (w\<lparr>outbox := outbox w @ [Sms (recipient c) r]\<rparr>) server = Some a"
    by (simp add: get_account_outbox)
  from h consume_sms_account [OF g]
  show "get_account (send_sms cfg ch clock server st c r w) server
        = Some (a\<lparr>sms_credits := sms_credits a - 1\<rparr>)"
    by (simp add: send_sms_def Let_def get_account_stamp)
qed


theorem credit_check_witness:
  "send_email all_enabled working_channels 50 https_server down_status email_config False
     (account_world 0 5) = account_world 0 5 \<and>
   send_sms all_enabled working_channels 50 https_server down_status sms_config False
     (account_world 5 0) = account_world 5 0 \<and>
   get_account (send_email all_enabled working_channels 50 https_server down_status email_config
                  False (account_world 2 5)) https_server
     = Some (org_account 1 5) \<and>
   get_account (send_sms all_enabled working_channels 50 https_server down_status sms_config
                  False (account_world 2 5)) https_server
     = Some (org_account 2 4)"
proof -
  have en: "EMAIL_NOTIFICATIONS_ENABLED all_enabled" "SMS_NOTIFICATIONS_ENABLED all_enabled"
    "twilio_credentials all_enabled" "twilio_installed working_channels"
    "send_mail working_channels (recipient email_config)"
    "messages_create working_channels (recipient sms_config)"
    by (simp_all add: all_enabled_def working_channels_def)
  have cr: "email_credits (org_account e s) = e" "sms_credits (org_account e s) = s"
    "(org_account e s)\<lparr>email_credits := e'\<rparr> = org_account e' s"
    "(org_account e s)\<lparr>sms_credits := s'\<rparr> = org_account e s'" for e s e' s'
    by (simp_all add: org_account_def)
  from credit_check [of "account_world 0 5" https_server "org_account 0 5" all_enabled
      working_channels 50 down_status email_config False]
    credit_check [of "account_world 5 0" https_server "org_account 5 0" all_enabled
      working_channels 50 down_status sms_config False]
    credit_check [of "account_world 2 5" https_server "org_account 2 5" all_enabled
      working_channels 50 down_status email_config False]
    credit_check [of "account_world 2 5" https_server "org_account 2 5" all_enabled
      working_channels 50 down_status sms_config False]
    en
  show ?thesis by (simp add: account_world_account cr)
qed

lemma no_account:
  assumes "\<forall>a \<in> set (user_accounts w).
             (organization s = None \<or> account_organization a \<noteq> organization s) \<and>
             (owner s = None \<or> account_user a \<noteq> owner s)"
  shows "get_account w s = None"
proof -
  have o: "organization s = Some oid \<Longrightarrow>
           find (\<lambda>a. account_organization a = Some oid) (user_accounts w) = None" for oid
    using assms by (auto simp: find_None_iff)
  have u: "owner s = Some uid \<Longrightarrow>
           find (\<lambda>a. account_user a = Some uid) (user_accounts w) = None" for uid
    using assms by (auto simp: find_None_iff)
  show ?thesis
    by (simp add: get_account_def owner_account_def o u split: option.splits)
qed

text \<open>
  C9.  A server with no account of its organization and none of its owner resolves to no
  account; the email adapter (when email is switched on) and the SMS adapter (when SMS
  is switched on, Twilio installed and configured) then hand the message to the
  transport, and the account table is left as it was.
\<close>

theorem no_account_unlimited:
  assumes "\<forall>a \<in> set (user_accounts w).
             (organization server = None \<or> account_organization a \<noteq> organization server) \<and>
             (owner server = None \<or> account_user a \<noteq> owner server)"
  shows "get_account w server = None \<and>
         (EMAIL_NOTIFICATIONS_ENABLED cfg \<longrightarrow>
            outbox (send_email cfg ch clock server st c r w)
              = outbox w @ [Email (recipient c) r] \<and>
            user_accounts (send_email cfg ch clock server st c r w) = user_accounts w) \<and>
         (SMS_NOTIFICATIONS_ENABLED cfg \<and> twilio_installed ch \<and> twilio_credentials cfg \<longrightarrow>
            outbox (send_sms cfg ch clock server st c r w)
              = outbox w @ [Sms (recipient c) r] \<and>
            user_accounts (send_sms cfg ch clock server st c r w) = user_accounts w)"
proof -
  from no_account [OF assms] have n: "get_account w server = None" .
  then show ?thesis
    by (simp add: send_email_def send_sms_def Let_def stamp_config_outbox
        stamp_config_accounts)
qed

theorem no_account_unlimited_witness:
  "get_account (config_world 0) https_server = None \<and>
   outbox (send_email all_enabled working_channels 50 https_server down_status email_config
             False (config_world 0)) = [Email ''ops@example.com'' False] \<and>
   user_accounts (send_email all_enabled working_channels 50 https_server down_status
                    email_config False (config_world 0)) = [] \<and>
   outbox (send_sms all_enabled working_channels 50 https_server down_status sms_config
             False (config_world 0)) = [Sms ''+15551234567'' False] \<and>
   user_accounts (send_sms all_enabled working_channels 50 https_server down_status
                    sms_config False (config_world 0)) = []"
proof -
  have e: "user_accounts (config_world 0) = []" "outbox (config_world 0) = []"
    by (simp_all add: config_world_def one_server_world_def empty_world_def)
  then have h: "\<forall>a \<in> set (user_accounts (config_world 0)).
             (organization https_server = None
                \<or> account_organization a \<noteq> organization https_server) \<and>
             (owner https_server = None \<or> account_user a \<noteq> owner https_server)"
    by simp
  have en: "EMAIL_NOTIFICATIONS_ENABLED all_enabled" "SMS_NOTIFICATIONS_ENABLED all_enabled"
    "twilio_credentials all_enabled" "twilio_installed working_channels"
    by (simp_all add: all_enabled_def working_channels_def)
  have rc: "recipient email_config = ''ops@example.com''"
    "recipient sms_config = ''+15551234567''"
    by (simp_all add: email_config_def sms_config_def)
  from no_account_unlimited [OF h, of all_enabled working_channels 50 down_status email_config False]
    no_account_unlimited [OF h, of all_enabled working_channels 50 down_status sms_config False] en e rc
  show ?thesis by simp
qed

section \<open>The resumable stream\<close>











end
